theory Spec2Isabelle
  imports Main
begin

section \<open>Instants and durations\<close>

text \<open>
  A \<^verbatim>\<open>time.Time\<close> is modelled by the number of nanoseconds that separate it from the
  zero value of the type (January 1, year 1, 00:00:00 UTC), on one time line. The zero
  value is the instant \<open>0\<close>, and \<^verbatim>\<open>t.IsZero()\<close> tests for it. A reading of
  \<^verbatim>\<open>time.Now()\<close> is an instant later than \<open>0\<close>. The wall clock and the monotonic
  clock of a reading are not told apart.

  A \<^verbatim>\<open>time.Duration\<close> is a signed 64-bit count of nanoseconds. \<^verbatim>\<open>t.Sub(u)\<close> is
  the difference \<open>t - u\<close>, replaced by the largest (smallest) duration when it exceeds
  the 64-bit range. An addition of durations wraps around.
\<close>

type_synonym Time = int
type_synonym Duration = int

definition maxDuration :: Duration where
  "maxDuration = 2 ^ 63 - 1"

definition minDuration :: Duration where
  "minDuration = - (2 ^ 63)"

definition IsZero :: "Time \<Rightarrow> bool" where
  "IsZero t \<longleftrightarrow> t = 0"

definition Sub :: "Time \<Rightarrow> Time \<Rightarrow> Duration" where
  "Sub t u =
     (if maxDuration < t - u then maxDuration
      else if t - u < minDuration then minDuration
      else t - u)"

definition add64 :: "Duration \<Rightarrow> Duration \<Rightarrow> Duration" where
  "add64 a b = (a + b + 2 ^ 63) mod 2 ^ 64 - 2 ^ 63"

section \<open>Splitting an address\<close>

text \<open>
  \<^verbatim>\<open>strings.Split(s, ":")\<close> cuts \<open>s\<close> at every colon; the result always has a
  first element, which \<^verbatim>\<open>[0]\<close> reads. The separator of every call in the source is
  the one-character string \<^verbatim>\<open>":"\<close>.
\<close>

fun Split :: "string \<Rightarrow> char \<Rightarrow> string list" where
  "Split [] sep = [[]]"
| "Split (c # cs) sep =
     (if c = sep then [] # Split cs sep
      else (case Split cs sep of
              [] \<Rightarrow> [[c]]
            | w # ws \<Rightarrow> (c # w) # ws))"

definition host_of :: "string \<Rightarrow> string" where
  "host_of addr = hd (Split addr (CHR '':''))"

section \<open>Lifecycle events\<close>

text \<open>
  One constructor for each hook of \<^verbatim>\<open>httptrace.ClientTrace\<close> that the program
  installs. Every event carries the reading of the clock at the moment the transport
  fires it. \<open>GotConn\<close> carries in addition the \<^verbatim>\<open>Reused\<close> flag and the results of
  \<^verbatim>\<open>Conn.LocalAddr()\<close> and \<^verbatim>\<open>Conn.RemoteAddr()\<close>: \<open>None\<close> for a nil address,
  \<open>Some s\<close> for an address whose \<^verbatim>\<open>String()\<close> is \<open>s\<close>.
\<close>

datatype event =
    DNSStart Time
  | DNSDone Time
  | ConnectStart Time
  | ConnectDone Time
  | TLSHandshakeStart Time
  | TLSHandshakeDone Time
  | GotConn Time bool "string option" "string option"
  | WroteRequest Time
  | GotFirstResponseByte Time

datatype error = NilAddr

section \<open>The per-phase revision\<close>

record Result =
  NameLookup :: Duration
  Connect :: Duration
  PreTransfer :: Duration
  StartTransfer :: Duration
  total :: Duration
  DNSLookup :: Duration
  TCPConnection :: Duration
  TLSHandshake :: Duration
  ServerProcessing :: Duration
  contentTransfer :: Duration
  localAddr :: string
  remoteAddr :: string
  dnsStart :: Time
  dnsDone :: Time
  tcpStart :: Time
  tcpDone :: Time
  tlsStart :: Time
  tlsDone :: Time
  serverStart :: Time
  serverDone :: Time
  transferStart :: Time
  transferDone :: Time
  isTLS :: bool
  isReused :: bool

text \<open>The zero value of the struct: what a caller passes to \<^verbatim>\<open>WithHTTPStat\<close>.\<close>

definition new_Result :: Result where
  "new_Result =
     \<lparr> NameLookup = 0, Connect = 0, PreTransfer = 0, StartTransfer = 0, total = 0,
       DNSLookup = 0, TCPConnection = 0, TLSHandshake = 0, ServerProcessing = 0,
       contentTransfer = 0, localAddr = [], remoteAddr = [],
       dnsStart = 0, dnsDone = 0, tcpStart = 0, tcpDone = 0, tlsStart = 0, tlsDone = 0,
       serverStart = 0, serverDone = 0, transferStart = 0, transferDone = 0,
       isTLS = False, isReused = False \<rparr>"

text \<open>
  \<^verbatim>\<open>WithHTTPStat\<close> builds the hooks; \<open>WithHTTPStat e r\<close> is the effect on \<open>r\<close> of the
  hook that the event \<open>e\<close> fires. The hook of \<open>GotConn\<close> calls \<^verbatim>\<open>String()\<close> on both
  addresses without a test: on a nil address it panics.
\<close>

fun WithHTTPStat :: "event \<Rightarrow> Result \<Rightarrow> error + Result" where
  "WithHTTPStat (DNSStart now) r = Inr (r\<lparr>dnsStart := now\<rparr>)"
| "WithHTTPStat (DNSDone now) r =
     (let r = r\<lparr>dnsDone := now\<rparr>;
          r = r\<lparr>DNSLookup := Sub (dnsDone r) (dnsStart r)\<rparr>
      in Inr (r\<lparr>NameLookup := DNSLookup r\<rparr>))"
| "WithHTTPStat (ConnectStart now) r =
     (let r = r\<lparr>tcpStart := now\<rparr>
      in if IsZero (dnsStart r)
         then Inr (r\<lparr>dnsStart := tcpStart r, dnsDone := tcpStart r\<rparr>)
         else Inr r)"
| "WithHTTPStat (ConnectDone now) r =
     (let r = r\<lparr>tcpDone := now\<rparr>;
          r = r\<lparr>TCPConnection := Sub (tcpDone r) (tcpStart r)\<rparr>
      in Inr (r\<lparr>Connect := Sub (tcpDone r) (dnsStart r)\<rparr>))"
| "WithHTTPStat (TLSHandshakeStart now) r = Inr (r\<lparr>isTLS := True, tlsStart := now\<rparr>)"
| "WithHTTPStat (TLSHandshakeDone now) r =
     (let r = r\<lparr>tlsDone := now\<rparr>;
          r = r\<lparr>TLSHandshake := Sub (tlsDone r) (tlsStart r)\<rparr>
      in Inr (r\<lparr>PreTransfer := Sub (tlsDone r) (dnsStart r)\<rparr>))"
| "WithHTTPStat (GotConn now reused laddr raddr) r =
     (let r = (if reused then r\<lparr>isReused := True\<rparr> else r)
      in case laddr of
           None \<Rightarrow> Inl NilAddr
         | Some l \<Rightarrow>
             (let r = r\<lparr>localAddr := host_of l\<rparr>
              in case raddr of
                   None \<Rightarrow> Inl NilAddr
                 | Some a \<Rightarrow> Inr (r\<lparr>remoteAddr := host_of a\<rparr>)))"
| "WithHTTPStat (WroteRequest now) r =
     (let r = r\<lparr>serverStart := now\<rparr>;
          r = (if IsZero (dnsStart r) \<and> IsZero (tcpStart r)
               then r\<lparr>dnsStart := serverStart r, dnsDone := serverStart r,
                      tcpStart := serverStart r, tcpDone := serverStart r\<rparr>
               else r);
          r = (if isReused r
               then r\<lparr>dnsStart := serverStart r, dnsDone := serverStart r,
                      tcpStart := serverStart r, tcpDone := serverStart r,
                      tlsStart := serverStart r, tlsDone := serverStart r\<rparr>
               else r)
      in if isTLS r then Inr r
         else (let r = r\<lparr>TLSHandshake := Sub (tcpDone r) (tcpDone r)\<rparr>
               in Inr (r\<lparr>PreTransfer := Connect r\<rparr>)))"
| "WithHTTPStat (GotFirstResponseByte now) r =
     (let r = r\<lparr>serverDone := now\<rparr>;
          r = r\<lparr>ServerProcessing := Sub (serverDone r) (serverStart r)\<rparr>;
          r = r\<lparr>StartTransfer := Sub (serverDone r) (dnsStart r)\<rparr>
      in Inr (r\<lparr>transferStart := serverDone r\<rparr>))"

text \<open>
  The transport fires the events of one request in order; a panic in a hook ends the
  run.
\<close>

fun fire :: "event list \<Rightarrow> Result \<Rightarrow> error + Result" where
  "fire [] r = Inr r"
| "fire (e # es) r =
     (case WithHTTPStat e r of
        Inl x \<Rightarrow> Inl x
      | Inr r' \<Rightarrow> fire es r')"

definition durations :: "Result \<Rightarrow> (string \<times> Duration) list" where
  "durations r =
     [(''DNSLookup'', DNSLookup r),
      (''TCPConnection'', TCPConnection r),
      (''TLSHandshake'', TLSHandshake r),
      (''ServerProcessing'', ServerProcessing r),
      (''ContentTransfer'', contentTransfer r),
      (''NameLookup'', NameLookup r),
      (''Connect'', Connect r),
      (''PreTransfer'', Connect r),
      (''StartTransfer'', StartTransfer r),
      (''Total'', total r)]"

definition LocalIp :: "Result \<Rightarrow> string" where
  "LocalIp r = localAddr r"

definition RemoteIP :: "Result \<Rightarrow> string" where
  "RemoteIP r = localAddr r"

definition End :: "Time \<Rightarrow> Result \<Rightarrow> Result" where
  "End t r =
     (let r = r\<lparr>transferDone := t\<rparr>
      in if IsZero (dnsStart r) then r
         else (let r = r\<lparr>contentTransfer := Sub (transferDone r) (transferStart r)\<rparr>
               in r\<lparr>total := Sub (transferDone r) (dnsStart r)\<rparr>))"

definition ContentTransfer :: "Result \<Rightarrow> Time \<Rightarrow> Duration" where
  "ContentTransfer r t = Sub t (serverDone r)"

definition Total :: "Result \<Rightarrow> Time \<Rightarrow> Duration" where
  "Total r t = Sub t (dnsStart r)"

section \<open>The cumulative revision\<close>

text \<open>
  The other revision of the file keeps the instants in variables of the closure and
  only the cumulative checkpoints in the struct. Its names carry the suffix \<open>_old\<close>.
\<close>

record Result_old =
  NameLookup_old :: Duration
  Connect_old :: Duration
  PreTransfer_old :: Duration
  StartTransfer_old :: Duration
  total_old :: Duration
  localAddr_old :: string
  remoteAddr_old :: string
  start_old :: Time
  transferDone_old :: Time

record vars_old =
  dnsStart_old :: Time
  dnsDone_old :: Time
  tcpStart_old :: Time
  tcpDone_old :: Time
  tlsDone_old :: Time
  serverStart_old :: Time
  serverDone_old :: Time
  isTLS_old :: bool
  isReused_old :: bool

definition new_Result_old :: Result_old where
  "new_Result_old =
     \<lparr> NameLookup_old = 0, Connect_old = 0, PreTransfer_old = 0, StartTransfer_old = 0,
       total_old = 0, localAddr_old = [], remoteAddr_old = [], start_old = 0,
       transferDone_old = 0 \<rparr>"

definition new_vars_old :: vars_old where
  "new_vars_old =
     \<lparr> dnsStart_old = 0, dnsDone_old = 0, tcpStart_old = 0, tcpDone_old = 0,
       tlsDone_old = 0, serverStart_old = 0, serverDone_old = 0,
       isTLS_old = False, isReused_old = False \<rparr>"

fun WithHTTPStat_old :: "event \<Rightarrow> vars_old \<times> Result_old \<Rightarrow> vars_old \<times> Result_old" where
  "WithHTTPStat_old (DNSStart now) (v, r) =
     (let v = v\<lparr>dnsStart_old := now\<rparr>
      in if IsZero (start_old r) then (v, r\<lparr>start_old := dnsStart_old v\<rparr>) else (v, r))"
| "WithHTTPStat_old (DNSDone now) (v, r) =
     (let v = v\<lparr>dnsDone_old := now\<rparr>
      in (v, r\<lparr>NameLookup_old :=
                 add64 (NameLookup_old r) (Sub (dnsDone_old v) (dnsStart_old v))\<rparr>))"
| "WithHTTPStat_old (ConnectStart now) (v, r) =
     (let v = v\<lparr>tcpStart_old := now\<rparr>;
          v = (if IsZero (dnsStart_old v)
               then v\<lparr>dnsStart_old := tcpStart_old v, dnsDone_old := tcpStart_old v\<rparr>
               else v)
      in if IsZero (start_old r) then (v, r\<lparr>start_old := tcpStart_old v\<rparr>) else (v, r))"
| "WithHTTPStat_old (ConnectDone now) (v, r) =
     (let v = v\<lparr>tcpDone_old := now\<rparr>
      in (v, r\<lparr>Connect_old :=
                 add64 (Connect_old r) (Sub (tcpDone_old v) (dnsStart_old v))\<rparr>))"
| "WithHTTPStat_old (TLSHandshakeStart now) (v, r) = (v\<lparr>isTLS_old := True\<rparr>, r)"
| "WithHTTPStat_old (TLSHandshakeDone now) (v, r) =
     (let v = v\<lparr>tlsDone_old := now\<rparr>
      in (v, r\<lparr>PreTransfer_old :=
                 add64 (PreTransfer_old r) (Sub (tlsDone_old v) (dnsStart_old v))\<rparr>))"
| "WithHTTPStat_old (GotConn now reused laddr raddr) (v, r) =
     (let gotC = now;
          (v, r) =
            (if reused
             then (let v = v\<lparr>isReused_old := True\<rparr>;
                       v = (if IsZero (dnsStart_old v)
                            then v\<lparr>dnsStart_old := gotC, dnsDone_old := gotC\<rparr>
                            else v)
                   in if IsZero (start_old r) then (v, r\<lparr>start_old := gotC\<rparr>) else (v, r))
             else (v, r));
          r = (case laddr of None \<Rightarrow> r | Some l \<Rightarrow> r\<lparr>localAddr_old := host_of l\<rparr>);
          r = (case raddr of None \<Rightarrow> r | Some a \<Rightarrow> r\<lparr>remoteAddr_old := host_of a\<rparr>)
      in (v, r))"
| "WithHTTPStat_old (WroteRequest now) (v, r) =
     (let v = v\<lparr>serverStart_old := now\<rparr>;
          v = (if IsZero (dnsStart_old v) \<and> IsZero (tcpStart_old v)
               then v\<lparr>dnsStart_old := serverStart_old v, dnsDone_old := serverStart_old v,
                      tcpStart_old := serverStart_old v, tcpDone_old := serverStart_old v\<rparr>
               else v);
          v = (if isReused_old v
               then v\<lparr>dnsStart_old := serverStart_old v, dnsDone_old := serverStart_old v,
                      tcpStart_old := serverStart_old v, tcpDone_old := serverStart_old v,
                      tlsDone_old := serverStart_old v\<rparr>
               else v)
      in if isTLS_old v then (v, r)
         else (v, r\<lparr>PreTransfer_old := add64 (PreTransfer_old r) (Connect_old r)\<rparr>))"
| "WithHTTPStat_old (GotFirstResponseByte now) (v, r) =
     (let v = v\<lparr>serverDone_old := now\<rparr>
      in (v, r\<lparr>StartTransfer_old :=
                 add64 (StartTransfer_old r) (Sub (serverDone_old v) (dnsStart_old v))\<rparr>))"

fun fire_old :: "event list \<Rightarrow> vars_old \<times> Result_old \<Rightarrow> vars_old \<times> Result_old" where
  "fire_old [] s = s"
| "fire_old (e # es) s = fire_old es (WithHTTPStat_old e s)"

definition durations_old :: "Result_old \<Rightarrow> (string \<times> Duration) list" where
  "durations_old r =
     [(''NameLookup'', NameLookup_old r),
      (''Connect'', Connect_old r),
      (''PreTransfer'', Connect_old r),
      (''StartTransfer'', StartTransfer_old r),
      (''Total'', total_old r)]"

definition LocalIp_old :: "Result_old \<Rightarrow> string" where
  "LocalIp_old r = localAddr_old r"

definition RemoteIP_old :: "Result_old \<Rightarrow> string" where
  "RemoteIP_old r = remoteAddr_old r"

definition End_old :: "Time \<Rightarrow> Result_old \<Rightarrow> Result_old" where
  "End_old t r =
     (let r = r\<lparr>transferDone_old := t\<rparr>
      in if IsZero (start_old r) then r
         else r\<lparr>total_old := Sub (transferDone_old r) (start_old r)\<rparr>)"

definition Total_old :: "Result_old \<Rightarrow> Time \<Rightarrow> Duration" where
  "Total_old r t = (if total_old r = 0 then Sub t (start_old r) else total_old r)"

section \<open>Shapes of event sequences\<close>

fun is_DNSStart :: "event \<Rightarrow> bool" where
  "is_DNSStart (DNSStart _) = True"
| "is_DNSStart _ = False"

fun is_DNSDone :: "event \<Rightarrow> bool" where
  "is_DNSDone (DNSDone _) = True"
| "is_DNSDone _ = False"

fun is_ConnectDone :: "event \<Rightarrow> bool" where
  "is_ConnectDone (ConnectDone _) = True"
| "is_ConnectDone _ = False"

fun is_TLSStart :: "event \<Rightarrow> bool" where
  "is_TLSStart (TLSHandshakeStart _) = True"
| "is_TLSStart _ = False"

fun is_TLSDone :: "event \<Rightarrow> bool" where
  "is_TLSDone (TLSHandshakeDone _) = True"
| "is_TLSDone _ = False"

fun is_WroteRequest :: "event \<Rightarrow> bool" where
  "is_WroteRequest (WroteRequest _) = True"
| "is_WroteRequest _ = False"

fun is_FirstByte :: "event \<Rightarrow> bool" where
  "is_FirstByte (GotFirstResponseByte _) = True"
| "is_FirstByte _ = False"

fun is_reused :: "event \<Rightarrow> bool" where
  "is_reused (GotConn _ reused _ _) = reused"
| "is_reused _ = False"

text \<open>An event on which a hook of the per-phase revision panics.\<close>

fun nil_addr :: "event \<Rightarrow> bool" where
  "nil_addr (GotConn _ _ None _) = True"
| "nil_addr (GotConn _ _ _ None) = True"
| "nil_addr _ = False"

text \<open>A TLS-start event fires before the first Request-written event.\<close>

definition tls_before_request :: "event list \<Rightarrow> bool" where
  "tls_before_request es \<longleftrightarrow>
     list_ex is_TLSStart (takeWhile (\<lambda>e. \<not> is_WroteRequest e) es)"

text \<open>
  The events that follow the first event of a request dialled once, on a fresh
  connection: no further DNS-start, no reuse, no nil address, each of DNS-done,
  Connect-done, TLS-done, Request-written and First-response-byte at most once, and
  when both TLS-done and Request-written fire, a TLS-start precedes Request-written
  (\<open>tls_before_request\<close>).
\<close>

definition single_dial :: "event list \<Rightarrow> bool" where
  "single_dial es \<longleftrightarrow>
     \<not> list_ex is_DNSStart es \<and> \<not> list_ex is_reused es \<and> \<not> list_ex nil_addr es
     \<and> length (filter is_DNSDone es) \<le> 1
     \<and> length (filter is_ConnectDone es) \<le> 1
     \<and> length (filter is_TLSDone es) \<le> 1
     \<and> length (filter is_WroteRequest es) \<le> 1
     \<and> length (filter is_FirstByte es) \<le> 1
     \<and> (list_ex is_TLSDone es \<and> list_ex is_WroteRequest es \<longrightarrow> tls_before_request es)"

text \<open>
  What the two revisions have in common after the events \<open>es\<close> of such a request,
  whose first event fired at \<open>t0\<close>: \<open>n\<close> is the struct of the per-phase revision,
  \<open>v\<close> and \<open>r\<close> are the variables and the struct of the cumulative one.
\<close>

definition agree :: "Time \<Rightarrow> event list \<Rightarrow> Result \<Rightarrow> vars_old \<Rightarrow> Result_old \<Rightarrow> bool" where
  "agree t0 es n v r \<longleftrightarrow>
     dnsStart n = t0 \<and> dnsStart_old v = t0 \<and> start_old r = t0
     \<and> \<not> isReused n \<and> \<not> isReused_old v
     \<and> isTLS n = list_ex is_TLSStart es \<and> isTLS_old v = list_ex is_TLSStart es
     \<and> NameLookup n = NameLookup_old r
     \<and> (\<not> list_ex is_DNSDone es \<longrightarrow> NameLookup n = 0)
     \<and> Connect n = Connect_old r
     \<and> (\<not> list_ex is_ConnectDone es \<longrightarrow> Connect n = 0)
     \<and> minDuration \<le> Connect n \<and> Connect n \<le> maxDuration
     \<and> PreTransfer n = PreTransfer_old r
     \<and> (\<not> list_ex is_TLSDone es
          \<and> (\<not> list_ex is_WroteRequest es \<or> tls_before_request es)
          \<longrightarrow> PreTransfer n = 0)
     \<and> StartTransfer n = StartTransfer_old r
     \<and> (\<not> list_ex is_FirstByte es \<longrightarrow> StartTransfer n = 0)"

section \<open>Arithmetic of \<open>Sub\<close>\<close>

lemma Sub_self: "Sub t t = 0"
  by (simp add: Sub_def maxDuration_def minDuration_def)

lemma Sub_nonneg: "u \<le> t \<Longrightarrow> 0 \<le> Sub t u"
  by (simp add: Sub_def maxDuration_def minDuration_def)

lemma Sub_mono: "t \<le> t' \<Longrightarrow> Sub t u \<le> Sub t' u"
  by (simp add: Sub_def maxDuration_def minDuration_def)

lemma Sub_range: "minDuration \<le> Sub t u" "Sub t u \<le> maxDuration"
  by (simp_all add: Sub_def maxDuration_def minDuration_def)

lemma add64_zero: "minDuration \<le> d \<Longrightarrow> d \<le> maxDuration \<Longrightarrow> add64 0 d = d"
  by (simp add: add64_def maxDuration_def minDuration_def)

lemma add64_zero_Sub: "add64 0 (Sub t u) = Sub t u"
  by (simp add: add64_zero Sub_range)

section \<open>A measurement object that saw no event\<close>

text \<open>
  C7. \<open>End t\<close> on a measurement object that saw no event only stamps
  \<open>transferDone\<close>: it returns a value (no error), and every duration of the object,
  per phase and cumulative, \<open>contentTransfer\<close> and \<open>total\<close> included, and every entry
  of the table \<open>durations\<close>, is zero afterwards.
\<close>

theorem End_never_used:
  "End t new_Result = new_Result\<lparr>transferDone := t\<rparr>
   \<and> DNSLookup (End t new_Result) = 0
   \<and> TCPConnection (End t new_Result) = 0
   \<and> TLSHandshake (End t new_Result) = 0
   \<and> ServerProcessing (End t new_Result) = 0
   \<and> contentTransfer (End t new_Result) = 0
   \<and> NameLookup (End t new_Result) = 0
   \<and> Connect (End t new_Result) = 0
   \<and> PreTransfer (End t new_Result) = 0
   \<and> StartTransfer (End t new_Result) = 0
   \<and> total (End t new_Result) = 0
   \<and> map snd (durations (End t new_Result)) = replicate 10 0"
  by (simp add: End_def new_Result_def IsZero_def durations_def numeral_eq_Suc)

section \<open>Runs of the hooks\<close>

lemma fire_append:
  "fire (xs @ ys) r = (case fire xs r of Inl x \<Rightarrow> Inl x | Inr r' \<Rightarrow> fire ys r')"
  by (induction xs arbitrary: r) (simp_all split: sum.splits)

lemma nil_addr_GotConn:
  "nil_addr (GotConn now reused laddr raddr) \<longleftrightarrow> laddr = None \<or> raddr = None"
  by (cases laddr; cases raddr; simp)

lemma WithHTTPStat_no_panic: "\<not> nil_addr e \<Longrightarrow> \<exists>r'. WithHTTPStat e r = Inr r'"
  by (cases e) (auto simp: Let_def nil_addr_GotConn)

lemma fire_no_panic: "\<not> list_ex nil_addr es \<Longrightarrow> \<exists>r'. fire es r = Inr r'"
proof (induction es arbitrary: r)
  case Nil
  show ?case by simp
next
  case (Cons e es)
  from Cons.prems have "\<not> nil_addr e" and rest: "\<not> list_ex nil_addr es" by simp_all
  then obtain r1 where "WithHTTPStat e r = Inr r1"
    using WithHTTPStat_no_panic by blast
  with Cons.IH [OF rest, of r1] show ?case by simp
qed

lemma full_tls_run:
  "t1 \<noteq> 0 \<Longrightarrow>
   fire [DNSStart t1, DNSDone t2, ConnectStart t3, ConnectDone t4, TLSHandshakeStart t5,
         TLSHandshakeDone t6, WroteRequest t7, GotFirstResponseByte t8] new_Result =
   Inr \<lparr> NameLookup = Sub t2 t1, Connect = Sub t4 t1, PreTransfer = Sub t6 t1,
         StartTransfer = Sub t8 t1, total = 0,
         DNSLookup = Sub t2 t1, TCPConnection = Sub t4 t3, TLSHandshake = Sub t6 t5,
         ServerProcessing = Sub t8 t7, contentTransfer = 0, localAddr = [], remoteAddr = [],
         dnsStart = t1, dnsDone = t2, tcpStart = t3, tcpDone = t4, tlsStart = t5,
         tlsDone = t6, serverStart = t7, serverDone = t8, transferStart = t8,
         transferDone = 0, isTLS = True, isReused = False \<rparr>"
  by (simp add: new_Result_def IsZero_def Let_def)

section \<open>The full sequence of a request over TLS\<close>

text \<open>
  C1. The events DNS-start, DNS-done, Connect-start, Connect-done, TLS-start, TLS-done,
  Request-written, First-response-byte fire at the clock readings \<open>t1 \<le> \<dots> \<le> t8\<close>
  (readings of the clock are later than the zero instant), and \<open>End\<close> is called with
  \<open>t9 \<ge> t8\<close>. Then no hook fails, every phase duration (\<open>DNSLookup\<close>,
  \<open>TCPConnection\<close>, \<open>TLSHandshake\<close>, \<open>ServerProcessing\<close>, \<open>contentTransfer\<close>) is at
  least zero, and \<open>NameLookup \<le> Connect \<le> PreTransfer \<le> StartTransfer \<le> total\<close>.
\<close>

theorem well_formed_sequence:
  assumes "0 < t1" and "t1 \<le> t2" and "t2 \<le> t3" and "t3 \<le> t4" and "t4 \<le> t5"
    and "t5 \<le> t6" and "t6 \<le> t7" and "t7 \<le> t8" and "t8 \<le> t9"
  shows "\<exists>r. fire [DNSStart t1, DNSDone t2, ConnectStart t3, ConnectDone t4,
                    TLSHandshakeStart t5, TLSHandshakeDone t6, WroteRequest t7,
                    GotFirstResponseByte t8] new_Result = Inr r
          \<and> 0 \<le> DNSLookup (End t9 r) \<and> 0 \<le> TCPConnection (End t9 r)
          \<and> 0 \<le> TLSHandshake (End t9 r) \<and> 0 \<le> ServerProcessing (End t9 r)
          \<and> 0 \<le> contentTransfer (End t9 r)
          \<and> NameLookup (End t9 r) \<le> Connect (End t9 r)
          \<and> Connect (End t9 r) \<le> PreTransfer (End t9 r)
          \<and> PreTransfer (End t9 r) \<le> StartTransfer (End t9 r)
          \<and> StartTransfer (End t9 r) \<le> total (End t9 r)"
proof -
  from assms have nz: "t1 \<noteq> 0" by simp
  have a: "0 \<le> Sub t2 t1" "0 \<le> Sub t4 t3" "0 \<le> Sub t6 t5" "0 \<le> Sub t8 t7" "0 \<le> Sub t9 t8"
    using assms by (simp_all add: Sub_nonneg)
  have b: "Sub t2 t1 \<le> Sub t4 t1" "Sub t4 t1 \<le> Sub t6 t1" "Sub t6 t1 \<le> Sub t8 t1"
    "Sub t8 t1 \<le> Sub t9 t1"
    using assms by (simp_all add: Sub_mono)
  show ?thesis
    unfolding full_tls_run [OF nz]
    using a b nz by (simp add: End_def IsZero_def Let_def)
qed

text \<open>A request of 200 ms on October 31, 2026.\<close>

theorem well_formed_sequence_witness:
  "\<exists>r. fire [DNSStart 63929044800000000000, DNSDone 63929044800004000000,
              ConnectStart 63929044800005000000, ConnectDone 63929044800030000000,
              TLSHandshakeStart 63929044800031000000,
              TLSHandshakeDone 63929044800090000000,
              WroteRequest 63929044800091000000,
              GotFirstResponseByte 63929044800150000000] new_Result = Inr r
       \<and> 0 \<le> DNSLookup (End 63929044800200000000 r)
       \<and> 0 \<le> TCPConnection (End 63929044800200000000 r)
       \<and> 0 \<le> TLSHandshake (End 63929044800200000000 r)
       \<and> 0 \<le> ServerProcessing (End 63929044800200000000 r)
       \<and> 0 \<le> contentTransfer (End 63929044800200000000 r)
       \<and> NameLookup (End 63929044800200000000 r) \<le> Connect (End 63929044800200000000 r)
       \<and> Connect (End 63929044800200000000 r) \<le> PreTransfer (End 63929044800200000000 r)
       \<and> PreTransfer (End 63929044800200000000 r)
           \<le> StartTransfer (End 63929044800200000000 r)
       \<and> StartTransfer (End 63929044800200000000 r) \<le> total (End 63929044800200000000 r)"
  by (rule well_formed_sequence) simp_all

text \<open>
  C6. The events DNS-start, DNS-done, Connect-start, Connect-done, TLS-start, TLS-done,
  Request-written, First-response-byte fire at \<open>t1, \<dots>, t8\<close>, where \<open>t1\<close> is not the
  zero instant and TLS-done is not earlier than Connect-done. After First-response-byte
  \<open>ServerProcessing = serverDone - serverStart\<close>,
  \<open>StartTransfer = serverDone - dnsStart\<close>, \<open>transferStart = serverDone\<close>,
  \<open>PreTransfer = tlsDone - dnsStart\<close> and \<open>PreTransfer \<ge> Connect\<close>, the instants being
  those of the events.
\<close>

theorem tls_path:
  assumes "t1 \<noteq> 0" and "t4 \<le> t6"
  shows "\<exists>r. fire [DNSStart t1, DNSDone t2, ConnectStart t3, ConnectDone t4,
                    TLSHandshakeStart t5, TLSHandshakeDone t6, WroteRequest t7,
                    GotFirstResponseByte t8] new_Result = Inr r
          \<and> dnsStart r = t1 \<and> tlsDone r = t6 \<and> serverStart r = t7 \<and> serverDone r = t8
          \<and> ServerProcessing r = Sub (serverDone r) (serverStart r)
          \<and> StartTransfer r = Sub (serverDone r) (dnsStart r)
          \<and> transferStart r = serverDone r
          \<and> PreTransfer r = Sub (tlsDone r) (dnsStart r)
          \<and> Connect r \<le> PreTransfer r"
  unfolding full_tls_run [OF assms(1)]
  using Sub_mono [OF assms(2), of t1] by simp

text \<open>The same request, up to the first byte of the response.\<close>

theorem tls_path_witness:
  "\<exists>r. fire [DNSStart 63929044800000000000, DNSDone 63929044800004000000,
              ConnectStart 63929044800005000000, ConnectDone 63929044800030000000,
              TLSHandshakeStart 63929044800031000000,
              TLSHandshakeDone 63929044800090000000,
              WroteRequest 63929044800091000000,
              GotFirstResponseByte 63929044800150000000] new_Result = Inr r
       \<and> dnsStart r = 63929044800000000000 \<and> tlsDone r = 63929044800090000000
       \<and> serverStart r = 63929044800091000000 \<and> serverDone r = 63929044800150000000
       \<and> ServerProcessing r = Sub (serverDone r) (serverStart r)
       \<and> StartTransfer r = Sub (serverDone r) (dnsStart r)
       \<and> transferStart r = serverDone r
       \<and> PreTransfer r = Sub (tlsDone r) (dnsStart r)
       \<and> Connect r \<le> PreTransfer r"
  by (rule tls_path) simp_all

section \<open>Plain HTTP\<close>

lemma WithHTTPStat_isTLS:
  "WithHTTPStat e r = Inr r' \<Longrightarrow> \<not> is_TLSStart e \<Longrightarrow> isTLS r' = isTLS r"
  by (cases "(e, r)" rule: WithHTTPStat.cases)
     (auto simp: Let_def split: option.splits if_splits)

lemma fire_isTLS:
  "fire es r = Inr r' \<Longrightarrow> \<not> list_ex is_TLSStart es \<Longrightarrow> isTLS r' = isTLS r"
proof (induction es arbitrary: r)
  case Nil
  then show ?case by simp
next
  case (Cons e es)
  from Cons.prems(1) obtain r1 where s: "WithHTTPStat e r = Inr r1" and f: "fire es r1 = Inr r'"
    by (auto split: sum.splits)
  from Cons.prems(2) have "\<not> is_TLSStart e" and "\<not> list_ex is_TLSStart es" by simp_all
  with Cons.IH [OF f] WithHTTPStat_isTLS [OF s] show ?case by simp
qed

lemma WroteRequest_plain:
  "\<not> isTLS r \<Longrightarrow>
   \<exists>r'. WithHTTPStat (WroteRequest t) r = Inr r' \<and> TLSHandshake r' = 0
         \<and> PreTransfer r' = Connect r'"
  by (simp add: Let_def Sub_self)

text \<open>
  C5. Whatever events fire before Request-written (the full DNS and Connect events
  among them), as long as no TLS-start event is among them and no connection is handed
  over with a nil address, the hooks do not fail and right after Request-written
  \<open>TLSHandshake = 0\<close> and \<open>PreTransfer = Connect\<close>.
\<close>

theorem plain_http_no_tls:
  assumes "\<not> list_ex is_TLSStart evs" and "\<not> list_ex nil_addr evs"
  shows "\<exists>r. fire (evs @ [WroteRequest t]) new_Result = Inr r
          \<and> TLSHandshake r = 0 \<and> PreTransfer r = Connect r"
proof -
  from fire_no_panic [OF assms(2)] obtain r1 where r1: "fire evs new_Result = Inr r1"
    by blast
  from fire_isTLS [OF r1 assms(1)] have "\<not> isTLS r1"
    by (simp add: new_Result_def)
  from WroteRequest_plain [OF this, of t] obtain r' where
    "WithHTTPStat (WroteRequest t) r1 = Inr r'" "TLSHandshake r' = 0"
    "PreTransfer r' = Connect r'"
    by blast
  with r1 show ?thesis by (simp add: fire_append)
qed

text \<open>A plain HTTP request: DNS, connect, connection acquired, request written.\<close>

theorem plain_http_no_tls_witness:
  "\<exists>r. fire ([DNSStart 63929044800000000000, DNSDone 63929044800004000000,
               ConnectStart 63929044800005000000, ConnectDone 63929044800030000000,
               GotConn 63929044800031000000 False (Some ''192.168.1.5:54321'')
                 (Some ''93.184.216.34:80'')]
              @ [WroteRequest 63929044800032000000]) new_Result = Inr r
       \<and> TLSHandshake r = 0 \<and> PreTransfer r = Connect r"
  by (rule plain_http_no_tls) simp_all

section \<open>Dialling a literal address\<close>

text \<open>
  C4. On a new measurement object Connect-start sets \<open>dnsStart = dnsDone = tcpStart\<close>.
  After Connect-start, Connect-done, Request-written, First-response-byte and \<open>End\<close>,
  with no DNS event, \<open>DNSLookup = 0\<close> and \<open>Connect = TCPConnection\<close>, for all instants
  of the events.
\<close>

theorem no_dns_dial:
  "(\<exists>r. fire [ConnectStart t1] new_Result = Inr r
        \<and> tcpStart r = t1 \<and> dnsStart r = tcpStart r \<and> dnsDone r = tcpStart r)
   \<and> (\<exists>r. fire [ConnectStart t1, ConnectDone t2, WroteRequest t3,
                 GotFirstResponseByte t4] new_Result = Inr r
        \<and> dnsStart r = tcpStart r \<and> dnsDone r = tcpStart r
        \<and> DNSLookup (End t5 r) = 0
        \<and> Connect (End t5 r) = TCPConnection (End t5 r)
        \<and> Connect (End t5 r) = Sub t2 t1)"
  by (simp add: new_Result_def IsZero_def Let_def End_def)

section \<open>A reused connection\<close>

text \<open>
  C2, as the code has it. The hook of the connection-acquired event only records the
  reuse; the instants of DNS, TCP and TLS are synthesized by the hook of
  Request-written, and all equal the instant of Request-written (\<open>serverStart\<close>). For
  Connection-acquired (reused), Request-written, First-response-byte, \<open>End\<close>:
  \<open>DNSLookup = TCPConnection = TLSHandshake = 0\<close> and
  \<open>StartTransfer = serverDone - serverStart\<close>.
\<close>

theorem reused_connection:
  "\<exists>r. fire [GotConn t1 True (Some l) (Some a), WroteRequest t2,
              GotFirstResponseByte t3] new_Result = Inr r
       \<and> dnsStart r = t2 \<and> dnsDone r = t2 \<and> tcpStart r = t2 \<and> tcpDone r = t2
       \<and> tlsStart r = t2 \<and> tlsDone r = t2
       \<and> DNSLookup (End t4 r) = 0 \<and> TCPConnection (End t4 r) = 0
       \<and> TLSHandshake (End t4 r) = 0
       \<and> StartTransfer (End t4 r) = Sub t3 t2
       \<and> StartTransfer (End t4 r) = Sub (serverDone r) (serverStart r)"
  by (simp add: new_Result_def IsZero_def Let_def End_def Sub_self)

text \<open>
  A connection acquired 2 ms before the request is written and 50 ms before the first
  byte: no synthesized instant is the instant of the acquisition, and \<open>StartTransfer\<close> is
  48 ms where \<open>serverDone\<close> minus the instant of the acquisition is 50 ms.
\<close>

theorem reused_connection_counterexample:
  "\<exists>r. fire [GotConn 63929044800000000000 True (Some ''192.168.1.5:54321'')
                (Some ''93.184.216.34:443''),
              WroteRequest 63929044800002000000,
              GotFirstResponseByte 63929044800050000000] new_Result = Inr r
       \<and> dnsStart r \<noteq> 63929044800000000000
       \<and> tcpStart r \<noteq> 63929044800000000000
       \<and> tlsStart r \<noteq> 63929044800000000000
       \<and> StartTransfer (End 63929044800060000000 r) = 48000000
       \<and> Sub (serverDone r) 63929044800000000000 = 50000000"
  by (simp add: new_Result_def IsZero_def Let_def End_def Sub_def maxDuration_def
        minDuration_def)

section \<open>Queries as of a given instant\<close>

text \<open>
  C3, as the code has it. \<open>Total r t = t - dnsStart\<close> and
  \<open>ContentTransfer r t = t - serverDone\<close>, as \<open>Sub\<close> computes them, whether the anchor
  is set or not, and never an error. With an anchor that was never set the result is
  the distance of \<open>t\<close> from the zero instant cut to the range of a duration:
  \<open>maxDuration\<close> for \<open>t\<close> beyond it, \<open>t\<close> nanoseconds otherwise.
\<close>

theorem as_of_queries:
  "Total r t = Sub t (dnsStart r)
   \<and> ContentTransfer r t = Sub t (serverDone r)
   \<and> Total (r\<lparr>dnsStart := 0\<rparr>) t =
       (if maxDuration < t then maxDuration else if t < minDuration then minDuration else t)
   \<and> ContentTransfer (r\<lparr>serverDone := 0\<rparr>) t =
       (if maxDuration < t then maxDuration else if t < minDuration then minDuration else t)"
  by (simp add: Total_def ContentTransfer_def Sub_def)

text \<open>
  On a new measurement object both anchors are unset; as of an instant of the year 2026
  both queries return the largest duration, not zero.
\<close>

theorem as_of_queries_counterexample:
  "IsZero (dnsStart new_Result) \<and> IsZero (serverDone new_Result)
   \<and> Total new_Result 63929044800000000000 = 9223372036854775807
   \<and> ContentTransfer new_Result 63929044800000000000 = 9223372036854775807
   \<and> Total new_Result 63929044800000000000 \<noteq> 0
   \<and> ContentTransfer new_Result 63929044800000000000 \<noteq> 0"
  by (simp add: Total_def ContentTransfer_def Sub_def new_Result_def IsZero_def
        maxDuration_def minDuration_def)

section \<open>Addresses\<close>

text \<open>
  C9. After the connection-acquired event \<open>LocalIp\<close> is the host part of the local
  address. \<open>RemoteIP\<close> reads the field \<open>localAddr\<close>: for a connection from
  \<^verbatim>\<open>192.168.1.5:54321\<close> to \<^verbatim>\<open>93.184.216.34:443\<close> it returns \<^verbatim>\<open>192.168.1.5\<close>,
  although the hook has stored \<^verbatim>\<open>93.184.216.34\<close> in \<open>remoteAddr\<close>. On the same event
  \<open>RemoteIP_old\<close>, of the cumulative revision, returns \<^verbatim>\<open>93.184.216.34\<close>.
\<close>

theorem RemoteIP_is_local_host:
  "(\<exists>r. fire [GotConn 63929044800000000000 False (Some ''192.168.1.5:54321'')
                 (Some ''93.184.216.34:443'')] new_Result = Inr r
        \<and> LocalIp r = ''192.168.1.5''
        \<and> remoteAddr r = ''93.184.216.34''
        \<and> RemoteIP r = ''192.168.1.5''
        \<and> RemoteIP r \<noteq> ''93.184.216.34'')
   \<and> RemoteIP_old (snd (fire_old [GotConn 63929044800000000000 False
                                     (Some ''192.168.1.5:54321'')
                                     (Some ''93.184.216.34:443'')]
                            (new_vars_old, new_Result_old))) = ''93.184.216.34''"
  by (simp add: new_Result_def new_Result_old_def Let_def host_of_def LocalIp_def
        RemoteIP_def RemoteIP_old_def)

section \<open>Truncated sequences\<close>

lemma WithHTTPStat_untouched:
  assumes "WithHTTPStat e r = Inr r'"
  shows "(\<not> is_DNSDone e \<longrightarrow> DNSLookup r' = DNSLookup r \<and> NameLookup r' = NameLookup r)
       \<and> (\<not> is_ConnectDone e \<longrightarrow> TCPConnection r' = TCPConnection r \<and> Connect r' = Connect r)
       \<and> (\<not> is_TLSDone e \<longrightarrow> TLSHandshake r = 0 \<longrightarrow> TLSHandshake r' = 0)
       \<and> (\<not> is_TLSDone e \<longrightarrow> \<not> is_WroteRequest e \<longrightarrow> PreTransfer r' = PreTransfer r)
       \<and> (\<not> is_FirstByte e \<longrightarrow> ServerProcessing r' = ServerProcessing r
             \<and> StartTransfer r' = StartTransfer r \<and> transferStart r' = transferStart r)
       \<and> contentTransfer r' = contentTransfer r \<and> total r' = total r"
  using assms
  by (cases e) (auto simp: Let_def Sub_self split: option.splits if_splits)

lemma fire_untouched:
  assumes "fire es r = Inr r'"
  shows "(\<not> list_ex is_DNSDone es \<longrightarrow> DNSLookup r' = DNSLookup r \<and> NameLookup r' = NameLookup r)
       \<and> (\<not> list_ex is_ConnectDone es \<longrightarrow> TCPConnection r' = TCPConnection r \<and> Connect r' = Connect r)
       \<and> (\<not> list_ex is_TLSDone es \<longrightarrow> TLSHandshake r = 0 \<longrightarrow> TLSHandshake r' = 0)
       \<and> (\<not> list_ex is_TLSDone es \<longrightarrow> \<not> list_ex is_WroteRequest es \<longrightarrow> PreTransfer r' = PreTransfer r)
       \<and> (\<not> list_ex is_FirstByte es \<longrightarrow> ServerProcessing r' = ServerProcessing r
             \<and> StartTransfer r' = StartTransfer r \<and> transferStart r' = transferStart r)
       \<and> contentTransfer r' = contentTransfer r \<and> total r' = total r"
  using assms
proof (induction es arbitrary: r)
  case Nil
  then show ?case by simp
next
  case (Cons e es)
  from Cons.prems obtain r1 where s: "WithHTTPStat e r = Inr r1" and f: "fire es r1 = Inr r'"
    by (auto split: sum.splits)
  from Cons.IH [OF f] WithHTTPStat_untouched [OF s] show ?case by simp
qed

text \<open>
  C8, as the code has it. For every sequence of events cut at any point, in which no
  connection is handed over with a nil address, no hook fails and every duration whose
  terminal event has not fired reads zero: \<open>DNSLookup\<close> and \<open>NameLookup\<close> without
  DNS-done, \<open>TCPConnection\<close> and \<open>Connect\<close> without Connect-done, \<open>TLSHandshake\<close> without
  TLS-done, \<open>PreTransfer\<close> without TLS-done and Request-written, \<open>ServerProcessing\<close> and
  \<open>StartTransfer\<close> without First-response-byte, \<open>contentTransfer\<close> and \<open>total\<close> until
  \<open>End\<close> is called. \<open>End t\<close> leaves \<open>contentTransfer\<close> and \<open>total\<close> at zero when
  \<open>dnsStart\<close> is unset; otherwise it sets \<open>contentTransfer = t - transferStart\<close>, where
  \<open>transferStart\<close> is the zero instant when First-response-byte has not fired, and
  \<open>total = t - dnsStart\<close>.
\<close>

theorem truncated_sequence:
  assumes "\<not> list_ex nil_addr evs"
  shows "\<exists>r. fire evs new_Result = Inr r
          \<and> (\<not> list_ex is_DNSDone evs \<longrightarrow> DNSLookup r = 0 \<and> NameLookup r = 0)
          \<and> (\<not> list_ex is_ConnectDone evs \<longrightarrow> TCPConnection r = 0 \<and> Connect r = 0)
          \<and> (\<not> list_ex is_TLSDone evs \<longrightarrow> TLSHandshake r = 0)
          \<and> (\<not> list_ex is_TLSDone evs \<and> \<not> list_ex is_WroteRequest evs \<longrightarrow> PreTransfer r = 0)
          \<and> (\<not> list_ex is_FirstByte evs \<longrightarrow>
                ServerProcessing r = 0 \<and> StartTransfer r = 0 \<and> transferStart r = 0)
          \<and> contentTransfer r = 0 \<and> total r = 0
          \<and> contentTransfer (End t r) =
               (if IsZero (dnsStart r) then 0 else Sub t (transferStart r))
          \<and> total (End t r) = (if IsZero (dnsStart r) then 0 else Sub t (dnsStart r))"
proof -
  from fire_no_panic [OF assms] obtain r where r: "fire evs new_Result = Inr r"
    by blast
  have z: "DNSLookup new_Result = 0" "NameLookup new_Result = 0" "TCPConnection new_Result = 0"
    "Connect new_Result = 0" "TLSHandshake new_Result = 0" "PreTransfer new_Result = 0"
    "ServerProcessing new_Result = 0" "StartTransfer new_Result = 0"
    "transferStart new_Result = 0" "contentTransfer new_Result = 0" "total new_Result = 0"
    by (simp_all add: new_Result_def)
  have e: "contentTransfer (End t r) =
             (if IsZero (dnsStart r) then contentTransfer r else Sub t (transferStart r))"
    "total (End t r) = (if IsZero (dnsStart r) then total r else Sub t (dnsStart r))"
    by (simp_all add: End_def Let_def)
  from fire_untouched [OF r] z e r show ?thesis by simp
qed

text \<open>A request cancelled during the DNS lookup, \<open>End\<close> called 30 s after its start.\<close>

theorem truncated_sequence_witness:
  "\<exists>r. fire [DNSStart 63929044800000000000] new_Result = Inr r
       \<and> DNSLookup r = 0 \<and> NameLookup r = 0
       \<and> TCPConnection r = 0 \<and> Connect r = 0 \<and> TLSHandshake r = 0 \<and> PreTransfer r = 0
       \<and> ServerProcessing r = 0 \<and> StartTransfer r = 0 \<and> transferStart r = 0
       \<and> contentTransfer r = 0 \<and> total r = 0
       \<and> contentTransfer (End 63929044830000000000 r) = Sub 63929044830000000000 0
       \<and> total (End 63929044830000000000 r) = 30000000000"
  using truncated_sequence [of "[DNSStart 63929044800000000000]" 63929044830000000000]
  by (simp add: IsZero_def Sub_def maxDuration_def minDuration_def)

text \<open>
  For that request First-response-byte never fired, and after \<open>End\<close> the content
  transfer reads the largest duration, not zero.
\<close>

theorem truncated_sequence_counterexample:
  "\<exists>r. fire [DNSStart 63929044800000000000] new_Result = Inr r
       \<and> \<not> list_ex is_FirstByte [DNSStart 63929044800000000000]
       \<and> contentTransfer (End 63929044830000000000 r) = 9223372036854775807
       \<and> contentTransfer (End 63929044830000000000 r) \<noteq> 0"
  by (simp add: new_Result_def IsZero_def Let_def End_def Sub_def maxDuration_def
        minDuration_def)

section \<open>The two revisions\<close>

lemma fire_old_append: "fire_old (xs @ ys) s = fire_old ys (fire_old xs s)"
  by (induction xs arbitrary: s) simp_all

lemma takeWhile_found:
  "list_ex Q es \<Longrightarrow> takeWhile (\<lambda>e. \<not> Q e) (es @ ys) = takeWhile (\<lambda>e. \<not> Q e) es"
  by (auto simp: list_ex_iff)

lemma takeWhile_not_found:
  "\<not> list_ex Q es \<Longrightarrow> takeWhile (\<lambda>e. \<not> Q e) (es @ ys) = es @ takeWhile (\<lambda>e. \<not> Q e) ys"
  by (auto simp: list_ex_iff)

lemma takeWhile_all: "\<not> list_ex Q es \<Longrightarrow> takeWhile (\<lambda>e. \<not> Q e) es = es"
  by (simp add: list_ex_iff)

lemma tls_before_request_all:
  assumes "\<not> list_ex is_WroteRequest es"
  shows "tls_before_request es = list_ex is_TLSStart es"
  unfolding tls_before_request_def takeWhile_all [OF assms] by (rule refl)

lemma tls_before_request_snoc:
  "tls_before_request (es @ [e]) \<longleftrightarrow>
     tls_before_request es \<or> (\<not> list_ex is_WroteRequest es \<and> is_TLSStart e)"
proof (cases "list_ex is_WroteRequest es")
  case True
  then show ?thesis
    by (simp add: tls_before_request_def takeWhile_found)
next
  case False
  have "tls_before_request (es @ [e]) = (list_ex is_TLSStart es \<or> is_TLSStart e)"
    unfolding tls_before_request_def takeWhile_not_found [OF False]
    by (cases e) simp_all
  with False show ?thesis
    by (simp add: tls_before_request_all)
qed

lemma at_most_once_snoc:
  "length (filter P (es @ [e])) \<le> 1 \<Longrightarrow> P e \<Longrightarrow> \<not> list_ex P es"
  by (auto simp: list_ex_iff filter_empty_conv)

lemma at_most_once_prefix:
  "length (filter P (es @ [e])) \<le> 1 \<Longrightarrow> length (filter P es) \<le> 1"
  by (simp split: if_splits)

lemma single_dial_last:
  assumes "single_dial (es @ [e])"
  shows "\<not> is_DNSStart e" and "\<not> is_reused e" and "\<not> nil_addr e"
    and "is_DNSDone e \<Longrightarrow> \<not> list_ex is_DNSDone es"
    and "is_ConnectDone e \<Longrightarrow> \<not> list_ex is_ConnectDone es"
    and "is_TLSDone e \<Longrightarrow> \<not> list_ex is_TLSDone es"
    and "is_WroteRequest e \<Longrightarrow> \<not> list_ex is_WroteRequest es"
    and "is_FirstByte e \<Longrightarrow> \<not> list_ex is_FirstByte es"
proof -
  from assms have c: "length (filter is_DNSDone (es @ [e])) \<le> 1"
    "length (filter is_ConnectDone (es @ [e])) \<le> 1"
    "length (filter is_TLSDone (es @ [e])) \<le> 1"
    "length (filter is_WroteRequest (es @ [e])) \<le> 1"
    "length (filter is_FirstByte (es @ [e])) \<le> 1"
    unfolding single_dial_def by blast+
  from assms show "\<not> is_DNSStart e" "\<not> is_reused e" "\<not> nil_addr e"
    by (simp_all add: single_dial_def)
  show "is_DNSDone e \<Longrightarrow> \<not> list_ex is_DNSDone es"
    using c(1) by (rule at_most_once_snoc)
  show "is_ConnectDone e \<Longrightarrow> \<not> list_ex is_ConnectDone es"
    using c(2) by (rule at_most_once_snoc)
  show "is_TLSDone e \<Longrightarrow> \<not> list_ex is_TLSDone es"
    using c(3) by (rule at_most_once_snoc)
  show "is_WroteRequest e \<Longrightarrow> \<not> list_ex is_WroteRequest es"
    using c(4) by (rule at_most_once_snoc)
  show "is_FirstByte e \<Longrightarrow> \<not> list_ex is_FirstByte es"
    using c(5) by (rule at_most_once_snoc)
qed

lemma single_dial_tls:
  assumes "single_dial (es @ [e])"
  shows "is_TLSDone e \<Longrightarrow> list_ex is_WroteRequest es \<Longrightarrow> tls_before_request es"
    and "is_WroteRequest e \<Longrightarrow> list_ex is_TLSDone es \<Longrightarrow> list_ex is_TLSStart es"
proof -
  have imp: "list_ex is_TLSDone (es @ [e]) \<and> list_ex is_WroteRequest (es @ [e]) \<longrightarrow>
          tls_before_request (es @ [e])"
    using assms unfolding single_dial_def by blast
  show "tls_before_request es" if "is_TLSDone e" and "list_ex is_WroteRequest es"
    using imp that by (cases e) (simp_all add: tls_before_request_snoc)
  show "list_ex is_TLSStart es" if w: "is_WroteRequest e" and "list_ex is_TLSDone es"
  proof -
    from single_dial_last(7) [OF assms w] have no: "\<not> list_ex is_WroteRequest es" .
    from imp that no show ?thesis
      by (cases e) (simp_all add: tls_before_request_snoc tls_before_request_all)
  qed
qed

lemma single_dial_prefix:
  assumes "single_dial (es @ [e])"
  shows "single_dial es"
proof -
  from assms have c: "length (filter is_DNSDone (es @ [e])) \<le> 1"
    "length (filter is_ConnectDone (es @ [e])) \<le> 1"
    "length (filter is_TLSDone (es @ [e])) \<le> 1"
    "length (filter is_WroteRequest (es @ [e])) \<le> 1"
    "length (filter is_FirstByte (es @ [e])) \<le> 1"
    and n: "\<not> list_ex is_DNSStart es" "\<not> list_ex is_reused es" "\<not> list_ex nil_addr es"
    and imp: "list_ex is_TLSDone (es @ [e]) \<and> list_ex is_WroteRequest (es @ [e]) \<longrightarrow>
          tls_before_request (es @ [e])"
    unfolding single_dial_def by simp_all
  have "tls_before_request es" if "list_ex is_TLSDone es" and "list_ex is_WroteRequest es"
    using imp that by (simp add: tls_before_request_snoc)
  with c [THEN at_most_once_prefix] n show ?thesis
    unfolding single_dial_def by blast
qed

lemma agree_step:
  assumes a: "agree t0 es n v r" and nz: "t0 \<noteq> 0" and sd: "single_dial (es @ [e])"
  shows "\<exists>n'. WithHTTPStat e n = Inr n'
          \<and> agree t0 (es @ [e]) n' (fst (WithHTTPStat_old e (v, r)))
               (snd (WithHTTPStat_old e (v, r)))"
proof (cases e)
  case (DNSStart x)
  with single_dial_last(1) [OF sd] show ?thesis by simp
next
  case (DNSDone x)
  with single_dial_last(4) [OF sd] have "\<not> list_ex is_DNSDone es" by simp
  with a DNSDone show ?thesis
    unfolding agree_def
    by (elim conjE) (simp add: Let_def tls_before_request_snoc add64_zero_Sub)
next
  case (ConnectStart x)
  with a nz show ?thesis
    unfolding agree_def
    by (elim conjE) (simp add: Let_def IsZero_def tls_before_request_snoc)
next
  case (ConnectDone x)
  with single_dial_last(5) [OF sd] have "\<not> list_ex is_ConnectDone es" by simp
  with a ConnectDone show ?thesis
    unfolding agree_def
    by (elim conjE) (simp add: Let_def tls_before_request_snoc add64_zero_Sub Sub_range)
next
  case (TLSHandshakeStart x)
  with a show ?thesis
    unfolding agree_def
    by (elim conjE, cases "list_ex is_WroteRequest es")
       (simp_all add: Let_def tls_before_request_snoc tls_before_request_all)
next
  case (TLSHandshakeDone x)
  with single_dial_last(6) [OF sd] single_dial_tls(1) [OF sd]
  have "\<not> list_ex is_TLSDone es"
    and "list_ex is_WroteRequest es \<Longrightarrow> tls_before_request es" by simp_all
  with a TLSHandshakeDone show ?thesis
    unfolding agree_def
    by (elim conjE, cases "list_ex is_WroteRequest es")
       (simp_all add: Let_def tls_before_request_snoc add64_zero_Sub)
next
  case (GotConn x reused la ra)
  with single_dial_last(2,3) [OF sd] obtain l a' where "la = Some l" "ra = Some a'" "\<not> reused"
    by (auto simp: nil_addr_GotConn)
  with a GotConn show ?thesis
    unfolding agree_def
    by (elim conjE) (simp add: Let_def tls_before_request_snoc)
next
  case (WroteRequest x)
  with single_dial_last(7) [OF sd] have no: "\<not> list_ex is_WroteRequest es" by simp
  show ?thesis
  proof (cases "list_ex is_TLSStart es")
    case True
    with a nz WroteRequest no show ?thesis
      unfolding agree_def
      by (elim conjE)
         (simp add: Let_def IsZero_def tls_before_request_snoc tls_before_request_all)
  next
    case False
    with single_dial_tls(2) [OF sd] WroteRequest have "\<not> list_ex is_TLSDone es" by auto
    with a nz WroteRequest no False show ?thesis
      unfolding agree_def
      by (elim conjE)
         (simp add: Let_def IsZero_def tls_before_request_snoc tls_before_request_all
            add64_zero Sub_self)
  qed
next
  case (GotFirstResponseByte x)
  with single_dial_last(8) [OF sd] have "\<not> list_ex is_FirstByte es" by simp
  with a GotFirstResponseByte show ?thesis
    unfolding agree_def
    by (elim conjE) (simp add: Let_def tls_before_request_snoc add64_zero_Sub)
qed

lemma agree_run:
  assumes "agree t0 [] n0 v0 r0" and "t0 \<noteq> 0"
  shows "single_dial es \<Longrightarrow>
         \<exists>n. fire es n0 = Inr n
           \<and> agree t0 es n (fst (fire_old es (v0, r0))) (snd (fire_old es (v0, r0)))"
proof (induction es rule: rev_induct)
  case Nil
  with assms(1) show ?case by simp
next
  case (snoc e es)
  from single_dial_prefix [OF snoc.prems] snoc.IH obtain n where
    n: "fire es n0 = Inr n"
    and a: "agree t0 es n (fst (fire_old es (v0, r0))) (snd (fire_old es (v0, r0)))"
    by blast
  from agree_step [OF a assms(2) snoc.prems] n show ?case
    by (auto simp: fire_append fire_old_append)
qed

lemma agree_first:
  assumes "t0 \<noteq> 0" and "e0 = DNSStart t0 \<or> e0 = ConnectStart t0"
  shows "\<exists>n. WithHTTPStat e0 new_Result = Inr n
          \<and> agree t0 [] n (fst (WithHTTPStat_old e0 (new_vars_old, new_Result_old)))
               (snd (WithHTTPStat_old e0 (new_vars_old, new_Result_old)))"
  using assms
  by (auto simp: agree_def new_Result_def new_vars_old_def new_Result_old_def Let_def
        IsZero_def tls_before_request_def minDuration_def maxDuration_def)

text \<open>
  C10, as the code has it. The first event of the request is DNS-start or Connect-start,
  at an instant \<open>t0\<close> other than the zero instant, and the events after it are those of
  a request dialled once on a fresh connection (\<open>single_dial\<close>). Then neither revision
  fails, and the two compute the same \<open>NameLookup\<close>, \<open>Connect\<close>, \<open>PreTransfer\<close>,
  \<open>StartTransfer\<close> and, after \<open>End t\<close>, the same total.
\<close>

theorem revisions_agree:
  assumes "t0 \<noteq> 0" and "e0 = DNSStart t0 \<or> e0 = ConnectStart t0" and "single_dial es"
  shows "\<exists>n v r. fire (e0 # es) new_Result = Inr n
          \<and> fire_old (e0 # es) (new_vars_old, new_Result_old) = (v, r)
          \<and> NameLookup n = NameLookup_old r
          \<and> Connect n = Connect_old r
          \<and> PreTransfer n = PreTransfer_old r
          \<and> StartTransfer n = StartTransfer_old r
          \<and> total (End t n) = total_old (End_old t r)"
proof -
  from agree_first [OF assms(1,2)] obtain n1 where
    n1: "WithHTTPStat e0 new_Result = Inr n1"
    and a1: "agree t0 [] n1 (fst (WithHTTPStat_old e0 (new_vars_old, new_Result_old)))
               (snd (WithHTTPStat_old e0 (new_vars_old, new_Result_old)))"
    by blast
  from agree_run [OF a1 assms(1,3)] obtain n where
    n: "fire es n1 = Inr n"
    and a: "agree t0 es n
              (fst (fire_old es (WithHTTPStat_old e0 (new_vars_old, new_Result_old))))
              (snd (fire_old es (WithHTTPStat_old e0 (new_vars_old, new_Result_old))))"
    by auto
  obtain v r where vr: "fire_old es (WithHTTPStat_old e0 (new_vars_old, new_Result_old)) = (v, r)"
    by (cases "fire_old es (WithHTTPStat_old e0 (new_vars_old, new_Result_old))")
  from a vr have f: "dnsStart n = t0" "start_old r = t0" "NameLookup n = NameLookup_old r"
    "Connect n = Connect_old r" "PreTransfer n = PreTransfer_old r"
    "StartTransfer n = StartTransfer_old r"
    by (simp_all add: agree_def)
  from f(1,2) assms(1) have "total (End t n) = total_old (End_old t r)"
    by (simp add: End_def End_old_def Let_def IsZero_def)
  with n1 n vr f show ?thesis by simp
qed

text \<open>A request over TLS on a fresh connection.\<close>

theorem revisions_agree_witness:
  "\<exists>n v r. fire [DNSStart 63929044800000000000, DNSDone 63929044800004000000,
                  ConnectStart 63929044800005000000, ConnectDone 63929044800030000000,
                  TLSHandshakeStart 63929044800031000000,
                  TLSHandshakeDone 63929044800090000000,
                  GotConn 63929044800090500000 False (Some ''192.168.1.5:54321'')
                    (Some ''93.184.216.34:443''),
                  WroteRequest 63929044800091000000,
                  GotFirstResponseByte 63929044800150000000] new_Result = Inr n
     \<and> fire_old [DNSStart 63929044800000000000, DNSDone 63929044800004000000,
                  ConnectStart 63929044800005000000, ConnectDone 63929044800030000000,
                  TLSHandshakeStart 63929044800031000000,
                  TLSHandshakeDone 63929044800090000000,
                  GotConn 63929044800090500000 False (Some ''192.168.1.5:54321'')
                    (Some ''93.184.216.34:443''),
                  WroteRequest 63929044800091000000,
                  GotFirstResponseByte 63929044800150000000]
          (new_vars_old, new_Result_old) = (v, r)
     \<and> NameLookup n = NameLookup_old r
     \<and> Connect n = Connect_old r
     \<and> PreTransfer n = PreTransfer_old r
     \<and> StartTransfer n = StartTransfer_old r
     \<and> total (End 63929044800200000000 n) = total_old (End_old 63929044800200000000 r)"
  by (rule revisions_agree [of 63929044800000000000 "DNSStart 63929044800000000000"])
     (simp_all add: single_dial_def tls_before_request_def)

text \<open>
  On a reused connection acquired 2 ms before the request is written the totals differ:
  the cumulative revision counts from the acquisition (60 ms), the per-phase revision
  from the instant the request is written (58 ms).
\<close>

theorem revisions_agree_counterexample:
  "\<exists>n v r. fire [GotConn 63929044800000000000 True (Some ''192.168.1.5:54321'')
                    (Some ''93.184.216.34:443''),
                  WroteRequest 63929044800002000000,
                  GotFirstResponseByte 63929044800050000000] new_Result = Inr n
     \<and> fire_old [GotConn 63929044800000000000 True (Some ''192.168.1.5:54321'')
                    (Some ''93.184.216.34:443''),
                  WroteRequest 63929044800002000000,
                  GotFirstResponseByte 63929044800050000000]
          (new_vars_old, new_Result_old) = (v, r)
     \<and> total (End 63929044800060000000 n) = 58000000
     \<and> total_old (End_old 63929044800060000000 r) = 60000000
     \<and> total (End 63929044800060000000 n) \<noteq> total_old (End_old 63929044800060000000 r)"
  by (simp add: new_Result_def new_vars_old_def new_Result_old_def Let_def IsZero_def
        End_def End_old_def Sub_def maxDuration_def minDuration_def)

end
